theory Spec2Isabelle
  imports Complex_Main "HOL-Library.Word"
begin

section \<open>Shared data: errors, JSON payloads, responses\<close>

text \<open>
  The exceptions the modelled code can raise. Every raise of the source is an \<open>Inl\<close>
  of the result type \<open>py_error + 'a\<close>.
\<close>

datatype py_error =
    AssertionError
  | KeyError
  | IndexError
  | TypeError
  | AttributeError
  | JSONDecodeError
  | ValidationError
  | ValueError
  | OutOfBoundsError
  | DuplicateError
  | ColumnNotFoundError

definition and_then :: "py_error + 'a \<Rightarrow> ('a \<Rightarrow> py_error + 'b) \<Rightarrow> py_error + 'b" where
  "and_then r f = (case r of Inl e \<Rightarrow> Inl e | Inr x \<Rightarrow> f x)"

text \<open>
  A decoded JSON payload, as \<open>response.json()\<close> returns it: \<open>None\<close>, a bool, a number,
  a string, a list or a dict (given by its items, keys distinct). Python floats are
  idealised as exact reals; the temperature conversion is given a second time with the
  rounding of double precision.
\<close>

datatype json =
    JNull
  | JBool bool
  | JNumber real
  | JString string
  | JArray "json list"
  | JObject "(string \<times> json) list"

text \<open>
  A \<open>requests.Response\<close>, as far as the code reads it: the flag \<open>ok\<close> and the body
  that \<open>json()\<close> decodes (\<open>None\<close> when the body is not JSON, where \<open>json()\<close> raises).
\<close>

record response =
  ok :: bool
  json_body :: "json option"

definition response_json :: "response \<Rightarrow> py_error + json" where
  "response_json r = (case json_body r of None \<Rightarrow> Inl JSONDecodeError | Some j \<Rightarrow> Inr j)"

text \<open>\<open>x[key]\<close> with a string key, and \<open>x[0]\<close>, on a decoded JSON value.\<close>

fun getitem_str :: "json \<Rightarrow> string \<Rightarrow> py_error + json" where
  "getitem_str (JObject items) key =
     (case map_of items key of None \<Rightarrow> Inl KeyError | Some v \<Rightarrow> Inr v)"
| "getitem_str (JArray xs) key = Inl TypeError"
| "getitem_str (JString s) key = Inl TypeError"
| "getitem_str (JNumber x) key = Inl TypeError"
| "getitem_str (JBool b) key = Inl TypeError"
| "getitem_str JNull key = Inl TypeError"

fun getitem_0 :: "json \<Rightarrow> py_error + json" where
  "getitem_0 (JArray []) = Inl IndexError"
| "getitem_0 (JArray (x # xs)) = Inr x"
| "getitem_0 (JString []) = Inl IndexError"
| "getitem_0 (JString (c # cs)) = Inr (JString [c])"
| "getitem_0 (JObject items) = Inl KeyError"
| "getitem_0 (JNumber x) = Inl TypeError"
| "getitem_0 (JBool b) = Inl TypeError"
| "getitem_0 JNull = Inl TypeError"

section \<open>convert_fahrenheit_to_celsius\<close>

definition convert_fahrenheit_to_celsius :: "real \<Rightarrow> real" where
  "convert_fahrenheit_to_celsius fahrenheit = 5 / 9 * (fahrenheit - 32)"

text \<open>
  The same expression in the arithmetic Python runs it in: every operation is rounded to
  the nearest double-precision number (IEEE 754 binary64), ties to the even significand.
  \<open>binary64\<close> rounds a real whose magnitude is in the normal range of the format: with
  \<open>e\<close> the exponent of its binade (\<open>2^e \<le> |x| < 2^(e+1)\<close>), the doubles around it are
  the multiples of \<open>2^(e - 52)\<close>. The exponent is found by halving or doubling, at most
  1100 times, which covers every exponent of the format.
\<close>

definition round_half_even :: "real \<Rightarrow> int" where
  "round_half_even x =
     (let n = \<lfloor>x\<rfloor>; r = x - of_int n
      in if r < 1 / 2 then n else if 1 / 2 < r then n + 1 else if even n then n else n + 1)"

fun binade :: "real \<Rightarrow> int \<Rightarrow> nat \<Rightarrow> int" where
  "binade x e 0 = e"
| "binade x e (Suc n) =
     (if 2 \<le> \<bar>x\<bar> then binade (x / 2) (e + 1) n
      else if \<bar>x\<bar> < 1 then binade (2 * x) (e - 1) n
      else e)"

definition binary64 :: "real \<Rightarrow> real" where
  "binary64 x =
     (if x = 0 then 0
      else
        (let e = binade x 0 1100;
             ulp = (if 52 \<le> e then 2 ^ nat (e - 52) else 1 / 2 ^ nat (52 - e))
         in of_int (round_half_even (x / ulp)) * ulp))"

definition convert_fahrenheit_to_celsius_binary64 :: "real \<Rightarrow> real" where
  "convert_fahrenheit_to_celsius_binary64 fahrenheit =
     binary64 (binary64 (5 / 9) * binary64 (fahrenheit - 32))"

section \<open>retry_request\<close>

text \<open>
  The request function is called with the same arguments at every attempt, so what it
  does is given by the outcome of its \<open>k\<close>-th call (counted from 0 over the whole run):
  a response, or an exception that \<open>retry_request\<close> does not catch. The effects of
  \<open>retry_request\<close> are logged in \<open>io\<close>: the calls made so far and the seconds slept.
\<close>

type_synonym request_func = "nat \<Rightarrow> py_error + response"

record io =
  calls :: nat
  slept :: nat

text \<open>
  The loop \<open>for i in range(retry_counter)\<close> at index \<open>i\<close>. Leaving the loop without a
  \<open>return\<close> is Python's implicit \<open>return None\<close>: the result \<open>Inr None\<close>.
\<close>

function retry_loop ::
  "int \<Rightarrow> nat \<Rightarrow> request_func \<Rightarrow> int \<Rightarrow> io \<Rightarrow> (py_error + (response \<times> int) option) \<times> io"
where
  "retry_loop retry_counter sleep_duration request_func i st =
     (if i < retry_counter then
        (case request_func (calls st) of
           Inl e \<Rightarrow> (Inl e, st\<lparr>calls := Suc (calls st)\<rparr>)
         | Inr response \<Rightarrow>
             (if ok response then (Inr (Some (response, i)), st\<lparr>calls := Suc (calls st)\<rparr>)
              else if i < retry_counter - 1 then
                retry_loop retry_counter sleep_duration request_func (i + 1)
                  (st\<lparr>calls := Suc (calls st), slept := slept st + sleep_duration\<rparr>)
              else (Inr (Some (response, i)), st\<lparr>calls := Suc (calls st)\<rparr>)))
      else (Inr None, st))"
  by pat_completeness auto
termination
  by (relation "measure (\<lambda>(retry_counter, sleep_duration, request_func, i, st). nat (retry_counter - i))")
    auto

definition retry_request ::
  "int \<Rightarrow> nat \<Rightarrow> request_func \<Rightarrow> io \<Rightarrow> (py_error + (response \<times> int) option) \<times> io"
where
  "retry_request retry_counter sleep_duration request_func st =
     retry_loop (if retry_counter < 1 then 0 else retry_counter) sleep_duration request_func 0 st"

text \<open>The first \<open>k\<close> calls from call number \<open>c\<close> on all return a response that is not ok.\<close>

definition all_fail :: "request_func \<Rightarrow> nat \<Rightarrow> nat \<Rightarrow> bool" where
  "all_fail request_func c k =
     list_all (\<lambda>j. case request_func (c + j) of Inl e \<Rightarrow> False | Inr r \<Rightarrow> \<not> ok r) [0..<k]"

section \<open>request_current_weather\<close>

text \<open>
  \<open>Coordinates\<close> and \<open>CurrentWeather\<close> are pydantic models. A model validates the
  fields passed to its constructor against their declared bounds; a default value is
  not validated, and neither is a value assigned to a field after construction
  (the models do not set \<open>validate_assignment\<close>). An assigned field therefore holds
  whatever value was assigned: the three location fields of \<open>CurrentWeather\<close> hold a
  decoded JSON value.
\<close>

record Coordinates =
  latitude :: real
  longitude :: real

definition Coordinates_init :: "real \<Rightarrow> real \<Rightarrow> py_error + Coordinates" where
  "Coordinates_init lat lon =
     (if - 90 \<le> lat \<and> lat \<le> 90 \<and> - 180 \<le> lon \<and> lon \<le> 180
      then Inr \<lparr>latitude = lat, longitude = lon\<rparr> else Inl ValidationError)"

record CurrentWeather =
  valid_response :: bool
  temperature_celsius :: real
  radar_station :: json
  coordinates_city :: json
  coordinates_state :: json
  error_message :: string

text \<open>The bound declared on the field: \<open>Field(ge=-150, le=150, default=-9999)\<close>.\<close>

definition temperature_celsius_in_bounds :: "real \<Rightarrow> bool" where
  "temperature_celsius_in_bounds t = (- 150 \<le> t \<and> t \<le> 150)"

text \<open>
  \<open>CurrentWeather(valid_response = v, error_message = msg)\<close>: neither of the two
  fields passed has a bound, so the construction succeeds; the others take their
  defaults. \<open>CurrentWeather(valid_response = v)\<close> is the case \<open>msg = ''\<close>.
\<close>

definition CurrentWeather_init :: "bool \<Rightarrow> string \<Rightarrow> CurrentWeather" where
  "CurrentWeather_init v msg =
     \<lparr>valid_response = v, temperature_celsius = - 9999, radar_station = JString [],
      coordinates_city = JString [], coordinates_state = JString [], error_message = msg\<rparr>"

definition forecast_url_missing_message :: string where
  "forecast_url_missing_message =
     ''Valid response from current weather API, but forecast URL not in expected place in response.''"

definition invalid_input_coordinates_message :: string where
  "invalid_input_coordinates_message =
     ''Invalid input coordinates.  The first coordinate should be latitude; the second should be longitude.  Ensure that the coordinates are within the United States.''"

definition invalid_weather_api_response_message :: string where
  "invalid_weather_api_response_message = ''Invalid response from current weather API.''"

definition temperature_missing_message :: string where
  "temperature_missing_message =
     ''Valid response from current weather API, but temperature not in expected place in response.''"

definition location_missing_message :: string where
  "location_missing_message =
     ''Valid response from current weather API, but location information is incomplete.''"

definition provide_response_error_messages :: "string \<times> string \<times> string \<times> string \<times> string" where
  "provide_response_error_messages =
     (forecast_url_missing_message, invalid_input_coordinates_message,
      invalid_weather_api_response_message, temperature_missing_message,
      location_missing_message)"

text \<open>
  \<open>s.lower()\<close> on the ASCII letters, and the substring test \<open>needle in s\<close>. A capital
  letter has the codes 65 to 90; its small letter is 32 higher, which is the capital's
  code with bit 5 set.
\<close>

definition lower_char :: "char \<Rightarrow> char" where
  "lower_char c =
     (if (65 :: nat) \<le> of_char c \<and> of_char c \<le> (90 :: nat)
      then (case c of Char b0 b1 b2 b3 b4 b5 b6 b7 \<Rightarrow> Char b0 b1 b2 b3 b4 True b6 b7)
      else c)"

definition lower :: "string \<Rightarrow> string" where
  "lower s = map lower_char s"

fun starts_with :: "string \<Rightarrow> string \<Rightarrow> bool" where
  "starts_with [] s = True"
| "starts_with (p # ps) [] = False"
| "starts_with (p # ps) (c # cs) = (p = c \<and> starts_with ps cs)"

fun str_contains :: "string \<Rightarrow> string \<Rightarrow> bool" where
  "str_contains needle [] = (needle = [])"
| "str_contains needle (c # cs) = (starts_with needle (c # cs) \<or> str_contains needle cs)"

text \<open>\<open>error_type.lower()\<close> on a decoded JSON value: only a string has the method.\<close>

fun json_lower :: "json \<Rightarrow> py_error + string" where
  "json_lower (JString s) = Inr (lower s)"
| "json_lower (JObject items) = Inl AttributeError"
| "json_lower (JArray xs) = Inl AttributeError"
| "json_lower (JNumber x) = Inl AttributeError"
| "json_lower (JBool b) = Inl AttributeError"
| "json_lower JNull = Inl AttributeError"

text \<open>
  \<open>convert_fahrenheit_to_celsius(current_temperature)\<close> on a decoded JSON value:
  \<open>current_temperature - 32\<close> is defined on a number and on a bool (an \<open>int\<close> in
  Python), and raises \<open>TypeError\<close> on everything else.
\<close>

fun convert_json_temperature :: "json \<Rightarrow> py_error + real" where
  "convert_json_temperature (JNumber x) = Inr (convert_fahrenheit_to_celsius x)"
| "convert_json_temperature (JBool b) = Inr (convert_fahrenheit_to_celsius (if b then 1 else 0))"
| "convert_json_temperature (JString s) = Inl TypeError"
| "convert_json_temperature (JArray xs) = Inl TypeError"
| "convert_json_temperature (JObject items) = Inl TypeError"
| "convert_json_temperature JNull = Inl TypeError"

text \<open>
  The two endpoints of the National Weather Service, each given by the outcome of its
  \<open>k\<close>-th call for an argument (the coordinate pair; the forecast URL as decoded, which
  need not be a string), and the effects of a run: the calls made to each endpoint and
  the seconds slept.
\<close>

record env =
  station_api :: "real \<times> real \<Rightarrow> request_func"
  forecast_api :: "json \<Rightarrow> request_func"

record world =
  station_calls :: nat
  forecast_calls :: nat
  seconds_slept :: nat

definition request_station_information :: "env \<Rightarrow> real \<times> real \<Rightarrow> request_func" where
  "request_station_information e coordinates = station_api e coordinates"

definition requests_get :: "env \<Rightarrow> json \<Rightarrow> request_func" where
  "requests_get e url = forecast_api e url"

text \<open>
  The reads of the decoded payloads, one definition per \<open>try\<close> block of the source (and
  one for the unguarded read of the \<open>type\<close> field): the forecast URL and the error type
  of the station response, the temperature of the first forecast period, and the
  location of the station response, read in the source's order city, state, radar
  station.
\<close>

definition station_forecast_url :: "response \<Rightarrow> py_error + json" where
  "station_forecast_url station_response =
     and_then (and_then (response_json station_response)
       (\<lambda>j. getitem_str j ''properties''))
       (\<lambda>j. getitem_str j ''forecast'')"

definition station_error_type :: "response \<Rightarrow> py_error + json" where
  "station_error_type station_response =
     and_then (response_json station_response) (\<lambda>j. getitem_str j ''type'')"

definition forecast_temperature :: "response \<Rightarrow> py_error + json" where
  "forecast_temperature forecast_response =
     and_then (and_then (and_then (and_then (response_json forecast_response)
       (\<lambda>j. getitem_str j ''properties''))
       (\<lambda>j. getitem_str j ''periods''))
       getitem_0)
       (\<lambda>j. getitem_str j ''temperature'')"

definition station_location :: "response \<Rightarrow> py_error + (json \<times> json \<times> json)" where
  "station_location station_response =
     (let relative_location =
            and_then (and_then (and_then (response_json station_response)
              (\<lambda>j. getitem_str j ''properties''))
              (\<lambda>j. getitem_str j ''relativeLocation''))
              (\<lambda>j. getitem_str j ''properties'')
      in and_then (and_then relative_location (\<lambda>j. getitem_str j ''city'')) (\<lambda>city.
         and_then (and_then relative_location (\<lambda>j. getitem_str j ''state'')) (\<lambda>state.
         and_then (and_then (and_then (response_json station_response)
              (\<lambda>j. getitem_str j ''properties''))
              (\<lambda>j. getitem_str j ''radarStation'')) (\<lambda>radar_station.
         Inr (city, state, radar_station)))))"

text \<open>
  The second half of \<open>request_current_weather\<close> (the source's section "submit and handle
  second API call"), entered with the station response and the forecast URL read from it.
\<close>

definition request_forecast ::
  "env \<Rightarrow> response \<Rightarrow> json \<Rightarrow> world \<Rightarrow> (py_error + CurrentWeather) \<times> world"
where
  "request_forecast e station_response forecast_url w =
     (let retry_n = 3; retry_delay = 4;
          (r, st) = retry_request retry_n retry_delay (requests_get e forecast_url)
                      \<lparr>calls = forecast_calls w, slept = seconds_slept w\<rparr>;
          w' = w\<lparr>forecast_calls := calls st, seconds_slept := slept st\<rparr>
      in case r of
           Inl err \<Rightarrow> (Inl err, w')
         | Inr None \<Rightarrow> (Inl TypeError, w')
         | Inr (Some (forecast_response, n)) \<Rightarrow>
             if ok forecast_response then
               (let current_weather = CurrentWeather_init True []
                in case forecast_temperature forecast_response of
                     Inl err \<Rightarrow>
                       (Inr (current_weather\<lparr>error_message := temperature_missing_message\<rparr>), w')
                   | Inr current_temperature \<Rightarrow>
                       (case station_location station_response of
                          Inl err \<Rightarrow>
                            (case convert_json_temperature current_temperature of
                               Inl err' \<Rightarrow> (Inl err', w')
                             | Inr t \<Rightarrow>
                                 (Inr (current_weather
                                    \<lparr>temperature_celsius := t,
                                     error_message := location_missing_message\<rparr>), w'))
                        | Inr (city, state, radar) \<Rightarrow>
                            (case convert_json_temperature current_temperature of
                               Inl err' \<Rightarrow> (Inl err', w')
                             | Inr t \<Rightarrow>
                                 (Inr (current_weather
                                    \<lparr>temperature_celsius := t,
                                     radar_station := radar,
                                     coordinates_city := city,
                                     coordinates_state := state\<rparr>), w'))))
             else (Inr (CurrentWeather_init False []), w'))"

definition request_current_weather ::
  "env \<Rightarrow> Coordinates \<Rightarrow> world \<Rightarrow> (py_error + CurrentWeather) \<times> world"
where
  "request_current_weather e coordinates w =
     (let retry_n = 3; retry_delay = 4;
          input_coordinates = (latitude coordinates, longitude coordinates);
          (r, st) = retry_request retry_n retry_delay
                      (request_station_information e input_coordinates)
                      \<lparr>calls = station_calls w, slept = seconds_slept w\<rparr>;
          w' = w\<lparr>station_calls := calls st, seconds_slept := slept st\<rparr>
      in case r of
           Inl err \<Rightarrow> (Inl err, w')
         | Inr None \<Rightarrow> (Inl TypeError, w')
         | Inr (Some (station_response, n)) \<Rightarrow>
             if ok station_response then
               (case station_forecast_url station_response of
                  Inl err \<Rightarrow> (Inr (CurrentWeather_init False forecast_url_missing_message), w')
                | Inr forecast_url \<Rightarrow> request_forecast e station_response forecast_url w')
             else
               (let current_weather = CurrentWeather_init False []
                in case station_error_type station_response of
                     Inl err \<Rightarrow> (Inl err, w')
                   | Inr error_type \<Rightarrow>
                       (case json_lower error_type of
                          Inl err \<Rightarrow> (Inl err, w')
                        | Inr lowered \<Rightarrow>
                            if str_contains ''invalidpoint'' lowered
                            then (Inr (current_weather
                                    \<lparr>error_message := invalid_input_coordinates_message\<rparr>), w')
                            else (Inr (current_weather
                                    \<lparr>error_message := invalid_weather_api_response_message\<rparr>), w'))))"

section \<open>identify_closest_coordinates\<close>

text \<open>
  The table \<open>coordinates_df[['lat', 'lon']]\<close> is the list of its rows, each a pair of
  numbers. The geodesic distance \<open>gd.distance(a, b).kilometers\<close> is a function of the
  geopy library: it is a parameter \<open>gd\<close> of the model. The call is not guarded, and
  geopy refuses a point it cannot use: the outcome of a call is a real number or an
  exception, which ends the scan and leaves the function.
  The running minimum starts at \<open>float('inf')\<close>, which is \<open>None\<close> here; a distance is
  less than \<open>float('inf')\<close>.
\<close>

type_synonym coordinate = "real \<times> real"

type_synonym distance_func = "coordinate \<Rightarrow> coordinate \<Rightarrow> py_error + real"

definition float_less :: "real \<Rightarrow> real option \<Rightarrow> bool" where
  "float_less distance min_distance =
     (case min_distance of None \<Rightarrow> True | Some m \<Rightarrow> distance < m)"

text \<open>The loop \<open>for i, e in enumerate(coordinates_srs)\<close> from index \<open>i\<close> on.\<close>

fun closest_scan ::
  "distance_func \<Rightarrow> coordinate \<Rightarrow> coordinate list \<Rightarrow> int \<Rightarrow>
   int \<times> real option \<Rightarrow> py_error + (int \<times> real option)"
where
  "closest_scan gd input_coordinates [] i (min_distance_idx, min_distance) =
     Inr (min_distance_idx, min_distance)"
| "closest_scan gd input_coordinates (e # es) i (min_distance_idx, min_distance) =
     (case gd input_coordinates e of
        Inl err \<Rightarrow> Inl err
      | Inr distance \<Rightarrow>
          if float_less distance min_distance
          then closest_scan gd input_coordinates es (i + 1) (i, Some distance)
          else closest_scan gd input_coordinates es (i + 1) (min_distance_idx, min_distance))"

definition identify_closest_coordinates ::
  "distance_func \<Rightarrow> coordinate \<Rightarrow> coordinate list \<Rightarrow> py_error + (int \<times> real option)"
where
  "identify_closest_coordinates gd input_coordinates coordinates_df =
     (if length coordinates_df > 0
      then closest_scan gd input_coordinates coordinates_df 0 (- 1, None)
      else Inl AssertionError)"

text \<open>
  What geopy does before it measures: it builds a point from each pair and raises
  \<open>ValueError\<close> for a latitude outside \<open>[-90, 90]\<close> (a longitude is wrapped into its
  range, not refused). The measuring itself, on the ellipsoid, is the parameter
  \<open>ellipsoid_distance\<close>. A coordinate that is not finite, which geopy refuses too, is not a real
  number: the type leaves it out.
\<close>

definition geopy_distance :: "(coordinate \<Rightarrow> coordinate \<Rightarrow> real) \<Rightarrow> distance_func" where
  "geopy_distance ellipsoid_distance a b =
     (if \<bar>fst a\<bar> \<le> 90 \<and> \<bar>fst b\<bar> \<le> 90 then Inr (ellipsoid_distance a b)
      else Inl ValueError)"

section \<open>filter_df_by_id_and_date\<close>

record datetime =
  year :: int
  month :: int
  day :: int
  hour :: int
  minute :: int
  second :: int
  microsecond :: int

definition date_of :: "datetime \<Rightarrow> int \<times> int \<times> int" where
  "date_of t = (year t, month t, day t)"

fun lex_le :: "int list \<Rightarrow> int list \<Rightarrow> bool" where
  "lex_le [] ys = True"
| "lex_le (x # xs) [] = False"
| "lex_le (x # xs) (y # ys) = (x < y \<or> (x = y \<and> lex_le xs ys))"

definition datetime_le :: "datetime \<Rightarrow> datetime \<Rightarrow> bool" where
  "datetime_le a b =
     lex_le [year a, month a, day a, hour a, minute a, second a, microsecond a]
            [year b, month b, day b, hour b, minute b, second b, microsecond b]"

text \<open>
  A polars frame: its column names and its rows, a row giving the cell of each column.
  In the frames this function is written for, the id column holds integers and the
  date column datetimes.
\<close>

datatype cell = Int_cell int | Datetime_cell datetime | Float_cell real | Str_cell string

type_synonym row = "string \<Rightarrow> cell option"

record dataframe =
  columns :: "string list"
  rows :: "row list"

text \<open>
  \<open>with_row_index().filter(...).select(date, index)\<close>: the date and the row index of
  every row of the given id on the target month and day, in row order. The row index
  column of polars is an unsigned 32-bit integer.
\<close>

definition row_matches :: "row \<Rightarrow> int \<Rightarrow> string \<Rightarrow> string \<Rightarrow> datetime \<Rightarrow> bool" where
  "row_matches r ident id_colname date_colname target_datetime =
     (r id_colname = Some (Int_cell ident) \<and>
      (case r date_colname of
         Some (Datetime_cell t) \<Rightarrow> month t = month target_datetime \<and> day t = day target_datetime
       | _ \<Rightarrow> False))"

definition row_date :: "row \<Rightarrow> string \<Rightarrow> (int \<times> int \<times> int) option" where
  "row_date r date_colname =
     (case r date_colname of Some (Datetime_cell t) \<Rightarrow> Some (date_of t) | _ \<Rightarrow> None)"

definition target_date_idx ::
  "row list \<Rightarrow> int \<Rightarrow> string \<Rightarrow> string \<Rightarrow> datetime \<Rightarrow> ((int \<times> int \<times> int) option \<times> 32 word) list"
where
  "target_date_idx rs ident id_colname date_colname target_datetime =
     map (\<lambda>(i, r). (row_date r date_colname, word_of_nat i))
       (filter (\<lambda>(i, r). row_matches r ident id_colname date_colname target_datetime)
          (enumerate 0 rs))"

text \<open>
  \<open>group_by(date).first()['index']\<close> and \<open>group_by(date).last()['index']\<close>: one index
  per distinct date. A group of a date that occurs is not empty, so \<open>hd\<close> and \<open>last\<close>
  are applied to non-empty lists only.
\<close>

definition group_first :: "('k \<times> 32 word) list \<Rightarrow> 32 word list" where
  "group_first xs =
     map (\<lambda>g. hd (map snd (filter (\<lambda>x. fst x = g) xs))) (remdups (map fst xs))"

definition group_last :: "('k \<times> 32 word) list \<Rightarrow> 32 word list" where
  "group_last xs =
     map (\<lambda>g. last (map snd (filter (\<lambda>x. fst x = g) xs))) (remdups (map fst xs))"

text \<open>
  \<open>df[idx, :]\<close>: the rows at the given indices, in the order of \<open>idx\<close>; polars refuses
  an index that is not below the number of rows.
\<close>

definition take_rows :: "row list \<Rightarrow> 32 word list \<Rightarrow> py_error + row list" where
  "take_rows rs idx =
     (if list_all (\<lambda>i. unat i < length rs) idx
      then Inr (map (\<lambda>i. rs ! unat i) idx) else Inl OutOfBoundsError)"

text \<open>\<open>sort(date_colname)\<close>: ascending in the date column, by insertion.\<close>

definition cell_le :: "cell option \<Rightarrow> cell option \<Rightarrow> bool" where
  "cell_le a b =
     (case (a, b) of
        (Some (Datetime_cell s), Some (Datetime_cell t)) \<Rightarrow> datetime_le s t
      | _ \<Rightarrow> True)"

fun insert_row :: "string \<Rightarrow> row \<Rightarrow> row list \<Rightarrow> row list" where
  "insert_row date_colname r [] = [r]"
| "insert_row date_colname r (x # xs) =
     (if cell_le (r date_colname) (x date_colname) then r # x # xs
      else x # insert_row date_colname r xs)"

definition sort_rows :: "string \<Rightarrow> row list \<Rightarrow> row list" where
  "sort_rows date_colname rs = foldr (insert_row date_colname) rs []"

text \<open>
  \<open>select(output_colnames)\<close> keeps the named columns of a row; polars refuses a list that
  names a column twice. The sort that follows it needs the date column among them.
\<close>

definition select_columns :: "string list \<Rightarrow> row \<Rightarrow> row" where
  "select_columns output_colnames r = (\<lambda>c. if c \<in> set output_colnames then r c else None)"

text \<open>
  The function: the six assertions of the source, the matches, the assertion that their
  indices are sorted, the two bracket indices of every date, and the selection. The
  bracket indices \<open>index - 1\<close> and \<open>index + 1\<close> are computed in the type of the index
  column, where they wrap around, and \<open>idx.append(...)\<close> extends \<open>idx\<close> in place, so the
  rows selected are the matches, then the rows before, then the rows after.
\<close>

definition filter_df_by_id_and_date ::
  "dataframe \<Rightarrow> string list \<Rightarrow> int \<Rightarrow> string \<Rightarrow> string \<Rightarrow> datetime \<Rightarrow> py_error + dataframe"
where
  "filter_df_by_id_and_date df output_colnames ident id_colname date_colname target_datetime =
     (if \<not> (length (rows df) > 0) then Inl AssertionError
      else if \<not> (length output_colnames > 0) then Inl AssertionError
      else if id_colname \<notin> set (columns df) then Inl AssertionError
      else if date_colname \<notin> set (columns df) then Inl AssertionError
      else if \<not> list_all (\<lambda>e. e \<in> set (columns df)) output_colnames then Inl AssertionError
      else if Some (Int_cell ident) \<notin> set (map (\<lambda>r. r id_colname) (rows df)) then Inl AssertionError
      else
        (let target_date_idx_df =
               target_date_idx (rows df) ident id_colname date_colname target_datetime
         in if \<not> sorted (map snd target_date_idx_df) then Inl AssertionError
            else
              (let pre_target_date_start_idx_df = map (\<lambda>i. i - 1) (group_first target_date_idx_df);
                   post_target_date_end_idx_df = map (\<lambda>i. i + 1) (group_last target_date_idx_df);
                   idx = map snd target_date_idx_df @ pre_target_date_start_idx_df
                           @ post_target_date_end_idx_df
               in case take_rows (rows df) idx of
                    Inl err \<Rightarrow> Inl err
                  | Inr taken \<Rightarrow>
                      if \<not> distinct output_colnames then Inl DuplicateError
                      else if date_colname \<notin> set output_colnames then Inl ColumnNotFoundError
                      else
                        Inr \<lparr>columns = output_colnames,
                             rows = sort_rows date_colname
                                      (map (select_columns output_colnames) taken)\<rparr>)))"

section \<open>AnnualWeather\<close>

text \<open>
  The values passed to the constructor of the pydantic model \<open>AnnualWeather\<close>, one per
  field, and the constructor: it checks every bound declared with \<open>Field(...)\<close> and
  raises \<open>ValidationError\<close> when one fails. The five fields taken from
  \<open>CurrentWeather\<close> are declared without a bound. A string's length is its number of
  characters.
\<close>

record AnnualWeather =
  current_temperature_celsius :: real
  current_station :: string
  current_city :: string
  current_state :: string
  current_error_message :: string
  distance_to_station_kilometers :: real
  annual_timestamp :: "datetime list"
  annual_temperature_celsius :: "real list"
  annual_usaf_station_id :: int
  annual_wban_station_id :: int
  annual_station_name :: string
  annual_station_state :: string
  annual_station_call :: string
  annual_station_latitude :: real
  annual_station_longitude :: real
  annual_station_elevation_meters :: real

definition AnnualWeather_init :: "AnnualWeather \<Rightarrow> py_error + AnnualWeather" where
  "AnnualWeather_init a =
     (if 0 \<le> distance_to_station_kilometers a \<and> distance_to_station_kilometers a \<le> 21000
         \<and> 0 \<le> annual_usaf_station_id a \<and> annual_usaf_station_id a < 1000000
         \<and> 0 \<le> annual_wban_station_id a \<and> annual_wban_station_id a < 100000
         \<and> length (annual_station_name a) \<le> 100
         \<and> 2 \<le> length (annual_station_state a) \<and> length (annual_station_state a) \<le> 2
         \<and> length (annual_station_call a) \<le> 4
         \<and> - 90 \<le> annual_station_latitude a \<and> annual_station_latitude a \<le> 90
         \<and> - 180 \<le> annual_station_longitude a \<and> annual_station_longitude a \<le> 180
         \<and> - 440 \<le> annual_station_elevation_meters a \<and> annual_station_elevation_meters a \<le> 8850
      then Inr a else Inl ValidationError)"

text \<open>The numeric fields that \<open>AnnualWeather\<close> declares with a bound, each within it.\<close>

definition bounded_numeric_fields_ok :: "AnnualWeather \<Rightarrow> bool" where
  "bounded_numeric_fields_ok a =
     (0 \<le> distance_to_station_kilometers a \<and> distance_to_station_kilometers a \<le> 21000
      \<and> 0 \<le> annual_usaf_station_id a \<and> annual_usaf_station_id a < 1000000
      \<and> 0 \<le> annual_wban_station_id a \<and> annual_wban_station_id a < 100000
      \<and> - 90 \<le> annual_station_latitude a \<and> annual_station_latitude a \<le> 90
      \<and> - 180 \<le> annual_station_longitude a \<and> annual_station_longitude a \<le> 180
      \<and> - 440 \<le> annual_station_elevation_meters a \<and> annual_station_elevation_meters a \<le> 8850)"

section \<open>Sample inputs\<close>

text \<open>Concrete inputs at which the theorems below are instantiated.\<close>

definition always_fails :: request_func where
  "always_fails k = Inr \<lparr>ok = False, json_body = None\<rparr>"

definition fails_then_ok :: request_func where
  "fails_then_ok k = Inr \<lparr>ok = (1 \<le> k), json_body = None\<rparr>"

definition start :: world where
  "start = \<lparr>station_calls = 0, forecast_calls = 0, seconds_slept = 0\<rparr>"

text \<open>The station payload and the forecast payload of the repository's tests.\<close>

definition station_payload :: json where
  "station_payload =
     JObject [(''properties'', JObject
       [(''forecast'', JString ''https://api.weather.gov/gridpoints/KILX/000,000/forecast''),
        (''relativeLocation'', JObject
           [(''properties'', JObject [(''city'', JString ''Homer''), (''state'', JString ''IL'')])]),
        (''radarStation'', JString ''KILX'')])]"

definition forecast_payload :: "real \<Rightarrow> json" where
  "forecast_payload t =
     JObject [(''properties'', JObject
       [(''periods'', JArray [JObject [(''temperature'', JNumber t)]])])]"

text \<open>Two endpoints that answer every call with the same response.\<close>

definition exchange :: "response \<Rightarrow> response \<Rightarrow> env" where
  "exchange station_response forecast_response =
     \<lparr>station_api = (\<lambda>coordinates k. Inr station_response),
      forecast_api = (\<lambda>url k. Inr forecast_response)\<rparr>"

definition at_midnight :: "int \<Rightarrow> int \<Rightarrow> int \<Rightarrow> datetime" where
  "at_midnight y m d =
     \<lparr>year = y, month = m, day = d, hour = 0, minute = 0, second = 0, microsecond = 0\<rparr>"

definition sample_row :: "datetime \<Rightarrow> int \<Rightarrow> row" where
  "sample_row t ident =
     (\<lambda>c. if c = ''timestamp'' then Some (Datetime_cell t)
          else if c = ''id'' then Some (Int_cell ident) else None)"

definition sample_annual_weather :: "real \<Rightarrow> AnnualWeather" where
  "sample_annual_weather t =
     \<lparr>current_temperature_celsius = t, current_station = [], current_city = [],
      current_state = [], current_error_message = invalid_weather_api_response_message,
      distance_to_station_kilometers = 12, annual_timestamp = [],
      annual_temperature_celsius = [],
      annual_usaf_station_id = 725315, annual_wban_station_id = 94870,
      annual_station_name = ''CHAMPAIGN'', annual_station_state = ''IL'',
      annual_station_call = ''KCMI'', annual_station_latitude = 40,
      annual_station_longitude = - 88, annual_station_elevation_meters = 230\<rparr>"

text \<open>
  A distance to run the scan with, in the place of the distance on the ellipsoid: the
  sum of the two coordinate gaps.
\<close>

definition gap_distance :: "coordinate \<Rightarrow> coordinate \<Rightarrow> real" where
  "gap_distance a b = \<bar>fst a - fst b\<bar> + \<bar>snd a - snd b\<bar>"

section \<open>Properties of retry_request\<close>

declare retry_loop.simps [simp del]

lemma all_fail_Suc:
  "all_fail f c (Suc k) =
     ((case f c of Inl e \<Rightarrow> False | Inr r \<Rightarrow> \<not> ok r) \<and> all_fail f (Suc c) k)"
proof -
  have "[0..<Suc k] = 0 # [Suc 0..<Suc k]"
    by (rule upt_conv_Cons) simp
  then have eq: "[0..<Suc k] = 0 # map Suc [0..<k]"
    by (simp only: map_Suc_upt)
  show ?thesis
    unfolding all_fail_def eq by (simp add: list.pred_map comp_def del: upt_Suc)
qed

text \<open>
  The loop entered at index \<open>i\<close>: when the next \<open>k\<close> calls fail and the call after them
  returns \<open>resp\<close>, which is ok or belongs to the last index of the range, the loop returns
  \<open>resp\<close> and the index of that call, after \<open>k + 1\<close> calls and \<open>k\<close> sleeps.
\<close>

lemma retry_loop_run:
  "all_fail f (calls st) k \<Longrightarrow> f (calls st + k) = Inr resp \<Longrightarrow> i + int k < rc \<Longrightarrow>
   ok resp \<or> i + int k = rc - 1 \<Longrightarrow>
   retry_loop rc d f i st =
     (Inr (Some (resp, i + int k)),
      st\<lparr>calls := calls st + Suc k, slept := slept st + k * d\<rparr>)"
proof (induction k arbitrary: i st)
  case 0
  then show ?case
    by (subst retry_loop.simps) auto
next
  case (Suc k)
  from Suc.prems(1) obtain r where r: "f (calls st) = Inr r" "\<not> ok r"
    and rest: "all_fail f (Suc (calls st)) k"
    by (auto simp: all_fail_Suc split: sum.splits)
  let ?st = "st\<lparr>calls := Suc (calls st), slept := slept st + d\<rparr>"
  have "retry_loop rc d f (i + 1) ?st =
     (Inr (Some (resp, (i + 1) + int k)),
      ?st\<lparr>calls := calls ?st + Suc k, slept := slept ?st + k * d\<rparr>)"
    using rest Suc.prems by (intro Suc.IH) auto
  moreover have "retry_loop rc d f i st = retry_loop rc d f (i + 1) ?st"
    using r Suc.prems(3) by (subst retry_loop.simps) auto
  ultimately show ?case by (simp add: algebra_simps)
qed

text \<open>
  C4, as the code has it. For \<open>max_attempts \<ge> 1\<close>: when the first \<open>k\<close> attempts fail and
  attempt number \<open>k\<close> (counted from 0) returns a response that is ok, or is the last
  attempt allowed, \<open>retry_request\<close> returns that response after exactly \<open>k + 1\<close> calls of
  the operation and \<open>k\<close> sleeps. So it stops at the first ok response, and when every
  attempt fails it makes exactly \<open>max_attempts\<close> calls and returns the last response.
  The integer returned with the response is the index \<open>k\<close> of the last attempt, which is
  one less than the number of attempts made.
\<close>

theorem retry_request_result:
  assumes "1 \<le> max_attempts"
    and "all_fail operation (calls st) k"
    and "operation (calls st + k) = Inr resp"
    and "int k < max_attempts"
    and "ok resp \<or> int k = max_attempts - 1"
  shows "retry_request max_attempts delay operation st =
     (Inr (Some (resp, int k)),
      st\<lparr>calls := calls st + (k + 1), slept := slept st + k * delay\<rparr>)"
  using assms retry_loop_run [of operation st k resp 0 max_attempts delay]
  by (simp add: retry_request_def)

text \<open>
  The theorem at two runs with three attempts allowed and a delay of 4: an operation
  that fails once and then succeeds (two calls, index 1 returned), and one that always
  fails (three calls, index 2 returned).
\<close>

theorem retry_request_result_witness:
  "retry_request 3 4 fails_then_ok \<lparr>calls = 0, slept = 0\<rparr> =
     (Inr (Some (\<lparr>ok = True, json_body = None\<rparr>, 1)), \<lparr>calls = 2, slept = 4\<rparr>) \<and>
   retry_request 3 4 always_fails \<lparr>calls = 0, slept = 0\<rparr> =
     (Inr (Some (\<lparr>ok = False, json_body = None\<rparr>, 2)), \<lparr>calls = 3, slept = 8\<rparr>)"
  using
    retry_request_result [of 3 fails_then_ok "\<lparr>calls = 0, slept = 0\<rparr>" 1
      "\<lparr>ok = True, json_body = None\<rparr>" 4]
    retry_request_result [of 3 always_fails "\<lparr>calls = 0, slept = 0\<rparr>" 2
      "\<lparr>ok = False, json_body = None\<rparr>" 4]
  by (simp add: all_fail_def always_fails_def fails_then_ok_def eval_nat_numeral)

text \<open>
  C4 as stated fails: when all three attempts fail, the integer returned is not the
  number of attempts made. Three calls are made and 2 is returned.
\<close>

theorem retry_request_count_counterexample:
  "\<not> (\<exists>r st'. retry_request 3 4 always_fails \<lparr>calls = 0, slept = 0\<rparr> =
          (Inr (Some (r, int (calls st'))), st'))"
  by (auto simp: retry_request_def retry_loop.simps always_fails_def)

text \<open>
  C8. For \<open>max_attempts\<close> below 1 the range of the loop is empty: \<open>retry_request\<close> makes
  no call and no sleep, raises nothing, and returns Python's \<open>None\<close>, which is not a pair
  of a response and a number of attempts.
\<close>

theorem retry_request_below_one:
  "max_attempts < 1 \<Longrightarrow> retry_request max_attempts delay operation st = (Inr None, st)"
  by (simp add: retry_request_def retry_loop.simps)

theorem retry_request_below_one_witness:
  "(0 :: int) < 1 \<and>
   retry_request 0 4 always_fails \<lparr>calls = 0, slept = 0\<rparr> = (Inr None, \<lparr>calls = 0, slept = 0\<rparr>)"
  using retry_request_below_one [of 0 4 always_fails "\<lparr>calls = 0, slept = 0\<rparr>"]
  by simp

section \<open>Properties of convert_fahrenheit_to_celsius\<close>

lemma binade_numeral:
  "binade x e (numeral k) =
     (if 2 \<le> \<bar>x\<bar> then binade (x / 2) (e + 1) (pred_numeral k)
      else if \<bar>x\<bar> < 1 then binade (2 * x) (e - 1) (pred_numeral k)
      else e)"
  by (simp add: numeral_eq_Suc)

text \<open>The double nearest to \<open>5/9\<close> is \<open>5003999585967218 / 2^53\<close>, slightly above it.\<close>

lemma binary64_five_ninths: "binary64 (5 / 9) = 5003999585967218 / 9007199254740992"
  by (simp add: binary64_def binade_numeral round_half_even_def Let_def)

lemma binary64_180: "binary64 180 = 180"
  by (simp add: binary64_def binade_numeral round_half_even_def Let_def)

lemma binary64_minus_72: "binary64 (- 72) = - 72"
  by (simp add: binary64_def binade_numeral round_half_even_def Let_def)

lemma convert_binary64_212: "convert_fahrenheit_to_celsius_binary64 212 = 100"
  by (simp add: convert_fahrenheit_to_celsius_binary64_def binary64_five_ninths binary64_180)
     (simp add: binary64_def binade_numeral round_half_even_def Let_def)

lemma convert_binary64_minus_40: "convert_fahrenheit_to_celsius_binary64 (- 40) = - 40"
  by (simp add: convert_fahrenheit_to_celsius_binary64_def binary64_five_ninths
        binary64_minus_72)
     (simp add: binary64_def binade_numeral round_half_even_def Let_def)

lemma convert_binary64_32: "convert_fahrenheit_to_celsius_binary64 32 = 0"
  by (simp add: convert_fahrenheit_to_celsius_binary64_def binary64_def)

text \<open>
  C7. \<open>convert_fahrenheit_to_celsius\<close> maps 32 to 0, 212 to 100 and \<open>-40\<close> to \<open>-40\<close>, and
  computes \<open>(F - 32) \<times> 5/9\<close>. The three values are the same in double-precision
  arithmetic: the rounding of \<open>5/9\<close> is absorbed by the rounding of the product.
\<close>

theorem convert_fahrenheit_to_celsius_values:
  "convert_fahrenheit_to_celsius 32 = 0 \<and> convert_fahrenheit_to_celsius 212 = 100 \<and>
   convert_fahrenheit_to_celsius (- 40) = - 40 \<and>
   (\<forall>f. convert_fahrenheit_to_celsius f = (f - 32) * 5 / 9) \<and>
   convert_fahrenheit_to_celsius_binary64 32 = 0 \<and>
   convert_fahrenheit_to_celsius_binary64 212 = 100 \<and>
   convert_fahrenheit_to_celsius_binary64 (- 40) = - 40"
  by (simp add: convert_fahrenheit_to_celsius_def convert_binary64_32 convert_binary64_212
        convert_binary64_minus_40)

section \<open>Properties of identify_closest_coordinates\<close>

lemma float_less_trans:
  "x < y \<Longrightarrow> float_less y m \<Longrightarrow> float_less x m"
  by (auto simp: float_less_def split: option.splits)

lemma float_less_below:
  "float_less x m \<Longrightarrow> \<not> float_less y m \<Longrightarrow> x < y"
  by (auto simp: float_less_def split: option.splits)

text \<open>When the distance to every station of the rest is defined, the scan returns.\<close>

lemma closest_scan_returns:
  "\<forall>e\<in>set es. gd q e = Inr (f e) \<Longrightarrow> \<exists>r. closest_scan gd q es i (ai, am) = Inr r"
  by (induction es arbitrary: i ai am) auto

text \<open>When the distance to a station of the rest is not defined, the scan raises.\<close>

lemma closest_scan_raises:
  "e \<in> set es \<Longrightarrow> gd q e = Inl err \<Longrightarrow> \<exists>err'. closest_scan gd q es i (ai, am) = Inl err'"
proof (induction es arbitrary: i ai am)
  case Nil
  then show ?case by simp
next
  case (Cons x xs)
  show ?case
  proof (cases "gd q x")
    case (Inl a)
    then show ?thesis by simp
  next
    case (Inr d)
    with Cons.prems have "e \<in> set xs" by auto
    from Cons.IH [OF this Cons.prems(2)] Inr show ?thesis by simp
  qed
qed

text \<open>
  The scan from index \<open>i\<close> with the running minimum \<open>(ai, am)\<close>, over stations whose
  distances \<open>f\<close> are all defined: either no station of the rest is closer than the
  running minimum, which is returned unchanged, or the result is the first station of
  the rest that attains the least distance of the rest, and it is closer than the
  running minimum.
\<close>

lemma closest_scan_spec:
  "\<forall>e\<in>set es. gd q e = Inr (f e) \<Longrightarrow> closest_scan gd q es i (ai, am) = Inr (ri, rm) \<Longrightarrow>
     (ri = ai \<and> rm = am \<and> (\<forall>j<length es. \<not> float_less (f (es ! j)) am)) \<or>
     (\<exists>k<length es. ri = i + int k \<and> rm = Some (f (es ! k)) \<and>
        float_less (f (es ! k)) am \<and>
        (\<forall>j<length es. f (es ! k) \<le> f (es ! j)) \<and>
        (\<forall>j<k. f (es ! k) < f (es ! j)))"
proof (induction es arbitrary: i ai am)
  case Nil
  then show ?case by simp
next
  case (Cons e es)
  from Cons.prems(1) have here: "gd q e = Inr (f e)"
    and rest: "\<forall>e\<in>set es. gd q e = Inr (f e)"
    by auto
  show ?case
  proof (cases "float_less (f e) am")
    case True
    with Cons.prems(2) here
    have run: "closest_scan gd q es (i + 1) (i, Some (f e)) = Inr (ri, rm)"
      by simp
    from Cons.IH [OF rest run] show ?thesis
    proof (elim disjE conjE exE)
      assume a: "ri = i" "rm = Some (f e)"
        "\<forall>j<length es. \<not> float_less (f (es ! j)) (Some (f e))"
      have "\<forall>j<length (e # es). f ((e # es) ! 0) \<le> f ((e # es) ! j)"
      proof (intro allI impI)
        fix j assume "j < length (e # es)"
        then show "f ((e # es) ! 0) \<le> f ((e # es) ! j)"
          using a(3) by (cases j) (auto simp: float_less_def)
      qed
      with a True have "0 < length (e # es) \<and> ri = i + int 0 \<and> rm = Some (f ((e # es) ! 0)) \<and>
        float_less (f ((e # es) ! 0)) am \<and>
        (\<forall>j<length (e # es). f ((e # es) ! 0) \<le> f ((e # es) ! j)) \<and>
        (\<forall>j<0. f ((e # es) ! 0) < f ((e # es) ! j))"
        by simp
      then show ?thesis by blast
    next
      fix k
      assume k: "k < length es" "ri = i + 1 + int k" "rm = Some (f (es ! k))"
        "float_less (f (es ! k)) (Some (f e))"
        "\<forall>j<length es. f (es ! k) \<le> f (es ! j)"
        "\<forall>j<k. f (es ! k) < f (es ! j)"
      from k(4) have lt: "f (es ! k) < f e" by (simp add: float_less_def)
      have le: "\<forall>j<length (e # es). f ((e # es) ! Suc k) \<le> f ((e # es) ! j)"
      proof (intro allI impI)
        fix j assume "j < length (e # es)"
        then show "f ((e # es) ! Suc k) \<le> f ((e # es) ! j)"
          using k(5) lt by (cases j) auto
      qed
      have less: "\<forall>j<Suc k. f ((e # es) ! Suc k) < f ((e # es) ! j)"
      proof (intro allI impI)
        fix j assume "j < Suc k"
        then show "f ((e # es) ! Suc k) < f ((e # es) ! j)"
          using k(6) lt by (cases j) auto
      qed
      have "Suc k < length (e # es) \<and> ri = i + int (Suc k) \<and>
        rm = Some (f ((e # es) ! Suc k)) \<and> float_less (f ((e # es) ! Suc k)) am"
        using k(1,2,3) float_less_trans [OF lt True] by simp
      with le less show ?thesis by blast
    qed
  next
    case False
    with Cons.prems(2) here
    have run: "closest_scan gd q es (i + 1) (ai, am) = Inr (ri, rm)"
      by simp
    from Cons.IH [OF rest run] show ?thesis
    proof (elim disjE conjE exE)
      assume a: "ri = ai" "rm = am" "\<forall>j<length es. \<not> float_less (f (es ! j)) am"
      have "\<forall>j<length (e # es). \<not> float_less (f ((e # es) ! j)) am"
      proof (intro allI impI)
        fix j assume "j < length (e # es)"
        then show "\<not> float_less (f ((e # es) ! j)) am"
          using a(3) False by (cases j) auto
      qed
      with a show ?thesis by blast
    next
      fix k
      assume k: "k < length es" "ri = i + 1 + int k" "rm = Some (f (es ! k))"
        "float_less (f (es ! k)) am"
        "\<forall>j<length es. f (es ! k) \<le> f (es ! j)"
        "\<forall>j<k. f (es ! k) < f (es ! j)"
      have lt: "f (es ! k) < f e"
        using float_less_below [OF k(4) False] .
      have le: "\<forall>j<length (e # es). f ((e # es) ! Suc k) \<le> f ((e # es) ! j)"
      proof (intro allI impI)
        fix j assume "j < length (e # es)"
        then show "f ((e # es) ! Suc k) \<le> f ((e # es) ! j)"
          using k(5) lt by (cases j) auto
      qed
      have less: "\<forall>j<Suc k. f ((e # es) ! Suc k) < f ((e # es) ! j)"
      proof (intro allI impI)
        fix j assume "j < Suc k"
        then show "f ((e # es) ! Suc k) < f ((e # es) ! j)"
          using k(6) lt by (cases j) auto
      qed
      have "Suc k < length (e # es) \<and> ri = i + int (Suc k) \<and>
        rm = Some (f ((e # es) ! Suc k)) \<and> float_less (f ((e # es) ! Suc k)) am"
        using k(1,2,3,4) by simp
      with le less show ?thesis by blast
    qed
  qed
qed

lemma identify_closest_coordinates_spec:
  assumes "coordinates_df \<noteq> []"
    and "\<forall>e\<in>set coordinates_df. gd q e = Inr (f e)"
  shows "\<exists>k<length coordinates_df.
     identify_closest_coordinates gd q coordinates_df
       = Inr (int k, Some (f (coordinates_df ! k))) \<and>
     (\<forall>j<length coordinates_df. f (coordinates_df ! k) \<le> f (coordinates_df ! j)) \<and>
     (\<forall>j<k. f (coordinates_df ! k) < f (coordinates_df ! j))"
proof -
  from closest_scan_returns [where gd = gd and q = q and f = f, OF assms(2)]
  obtain ri rm where run: "closest_scan gd q coordinates_df 0 (- 1, None) = Inr (ri, rm)"
    by (metis surj_pair)
  have first: "float_less (f (coordinates_df ! 0)) None"
    by (simp add: float_less_def)
  from closest_scan_spec [where gd = gd and q = q and f = f, OF assms(2) run] assms(1) first
  obtain k where "k < length coordinates_df" "ri = int k" "rm = Some (f (coordinates_df ! k))"
    "\<forall>j<length coordinates_df. f (coordinates_df ! k) \<le> f (coordinates_df ! j)"
    "\<forall>j<k. f (coordinates_df ! k) < f (coordinates_df ! j)"
    by auto
  with run assms(1) show ?thesis
    by (auto simp: identify_closest_coordinates_def)
qed

text \<open>A table with a station that geopy refuses makes the function raise.\<close>

lemma identify_closest_coordinates_raises:
  "e \<in> set coordinates_df \<Longrightarrow> gd q e = Inl err \<Longrightarrow>
   \<exists>err'. identify_closest_coordinates gd q coordinates_df = Inl err'"
  using closest_scan_raises [of e coordinates_df gd q err 0 "- 1" None]
  by (auto simp: identify_closest_coordinates_def)

text \<open>
  C3, as the code has it. For a non-empty table such that the geodesic distance from the
  query to every station is defined, \<open>identify_closest_coordinates\<close> returns an index and
  a distance. The distance is at most the distance from the query to every station of
  the table, and the index is the lowest one of a station at exactly that distance: the
  station at the index has that distance, and every station at that distance has an
  index that is not lower.
\<close>

theorem identify_closest_coordinates_minimal:
  assumes "coordinates_df \<noteq> []"
    and "\<forall>e\<in>set coordinates_df. \<exists>x. gd q e = Inr x"
  shows "\<exists>i d. identify_closest_coordinates gd q coordinates_df = Inr (i, Some d) \<and>
     (\<forall>j<length coordinates_df. \<exists>x. gd q (coordinates_df ! j) = Inr x \<and> d \<le> x) \<and>
     0 \<le> i \<and> nat i < length coordinates_df \<and> gd q (coordinates_df ! nat i) = Inr d \<and>
     (\<forall>j<length coordinates_df. gd q (coordinates_df ! j) = Inr d \<longrightarrow> i \<le> int j)"
proof -
  from assms(2) obtain f where f: "\<forall>e\<in>set coordinates_df. gd q e = Inr (f e)"
    by metis
  from identify_closest_coordinates_spec [where gd = gd and q = q and f = f, OF assms(1) f]
  obtain k where k: "k < length coordinates_df"
    "identify_closest_coordinates gd q coordinates_df
       = Inr (int k, Some (f (coordinates_df ! k)))"
    "\<forall>j<length coordinates_df. f (coordinates_df ! k) \<le> f (coordinates_df ! j)"
    "\<forall>j<k. f (coordinates_df ! k) < f (coordinates_df ! j)"
    by blast
  have at: "\<forall>j<length coordinates_df. gd q (coordinates_df ! j) = Inr (f (coordinates_df ! j))"
    using f by simp
  have ties: "\<forall>j<length coordinates_df.
          gd q (coordinates_df ! j) = Inr (f (coordinates_df ! k)) \<longrightarrow> int k \<le> int j"
  proof (intro allI impI)
    fix j
    assume j: "j < length coordinates_df"
      "gd q (coordinates_df ! j) = Inr (f (coordinates_df ! k))"
    with at have "f (coordinates_df ! j) = f (coordinates_df ! k)" by simp
    with k(4) have "\<not> j < k" by auto
    then show "int k \<le> int j" by simp
  qed
  have least: "\<forall>j<length coordinates_df.
          \<exists>x. gd q (coordinates_df ! j) = Inr x \<and> f (coordinates_df ! k) \<le> x"
    using at k(3) by simp
  from k(1) at have "gd q (coordinates_df ! k) = Inr (f (coordinates_df ! k))" by simp
  with k(1,2) least ties show ?thesis by simp
qed

text \<open>
  The theorem at a table of three stations of which the second and the third are at
  the query coordinate: the index returned is 1, the distance 0.
\<close>

theorem identify_closest_coordinates_minimal_witness:
  "[(34, - 116), (70, - 160), (70, - 160 :: real)] \<noteq> [] \<and>
   identify_closest_coordinates (geopy_distance gap_distance) (70, - 160)
     [(34, - 116), (70, - 160), (70, - 160)] = Inr (1, Some 0)"
  using identify_closest_coordinates_minimal
    [of "[(34, - 116), (70, - 160), (70, - 160)]" "geopy_distance gap_distance" "(70, - 160)"]
  by (simp add: identify_closest_coordinates_def geopy_distance_def gap_distance_def
       float_less_def)

text \<open>
  C3 as stated fails: a table of one station whose latitude is the number 91 is not
  empty and numeric, and the function raises \<open>ValueError\<close> where the claim has it return
  an index and a distance.
\<close>

theorem identify_closest_coordinates_minimal_counterexample:
  "identify_closest_coordinates (geopy_distance gap_distance) (70, - 160) [(91, 0)]
     = Inl ValueError"
  by (simp add: identify_closest_coordinates_def geopy_distance_def)

text \<open>
  C9, as the code has it. For a non-empty table of \<open>n\<close> stations such that the geodesic
  distance from the query to every station is defined, \<open>identify_closest_coordinates\<close>
  returns an index \<open>i\<close> with \<open>0 \<le> i < n\<close> and a distance that is a number: the initial
  values \<open>-1\<close> and infinity are not returned. The distance is the distance from the query
  to the station at index \<open>i\<close>.
\<close>

theorem identify_closest_coordinates_index_in_range:
  assumes "coordinates_df \<noteq> []"
    and "\<forall>e\<in>set coordinates_df. \<exists>x. gd q e = Inr x"
  shows "\<exists>i d. identify_closest_coordinates gd q coordinates_df = Inr (i, Some d) \<and>
     0 \<le> i \<and> i < int (length coordinates_df) \<and> i \<noteq> - 1 \<and>
     gd q (coordinates_df ! nat i) = Inr d"
proof -
  from assms(2) obtain f where f: "\<forall>e\<in>set coordinates_df. gd q e = Inr (f e)"
    by metis
  from identify_closest_coordinates_spec [where gd = gd and q = q and f = f, OF assms(1) f]
  obtain k where k: "k < length coordinates_df"
    "identify_closest_coordinates gd q coordinates_df
       = Inr (int k, Some (f (coordinates_df ! k)))"
    by blast
  from k(1) f have "gd q (coordinates_df ! k) = Inr (f (coordinates_df ! k))" by simp
  with k show ?thesis by simp
qed

text \<open>The theorem at the five stations of the repository's test, with the third closest.\<close>

theorem identify_closest_coordinates_index_in_range_witness:
  "[(34, - 116), (71, - 156), (701 / 10, - 160), (72, - 148), (69, - 143 :: real)] \<noteq> [] \<and>
   identify_closest_coordinates (geopy_distance gap_distance) (70, - 160)
     [(34, - 116), (71, - 156), (701 / 10, - 160), (72, - 148), (69, - 143)]
     = Inr (2, Some (1 / 10))"
  using identify_closest_coordinates_index_in_range
    [of "[(34, - 116), (71, - 156), (701 / 10, - 160), (72, - 148), (69, - 143)]"
        "geopy_distance gap_distance" "(70, - 160)"]
  by (simp add: identify_closest_coordinates_def geopy_distance_def gap_distance_def
       float_less_def)

text \<open>
  C9 as stated fails: with a query whose latitude is 100 the first call of the distance
  raises \<open>ValueError\<close>, and no index is returned for the non-empty table.
\<close>

theorem identify_closest_coordinates_index_counterexample:
  "identify_closest_coordinates (geopy_distance gap_distance) (100, 0) [(34, - 116), (70, - 160)]
     = Inl ValueError"
  by (simp add: identify_closest_coordinates_def geopy_distance_def)

section \<open>Properties of filter_df_by_id_and_date\<close>

lemma group_first_hd:
  assumes "xs \<noteq> []"
  shows "snd (hd xs) \<in> set (group_first xs)"
proof -
  from assms obtain x xs' where xs: "xs = x # xs'" by (cases xs) auto
  have "snd x \<in> (\<lambda>g. hd (map snd (filter (\<lambda>y. fst y = g) xs))) ` set (map fst xs)"
    by (rule image_eqI [where x = "fst x"]) (simp_all add: xs)
  moreover have "set (group_first xs)
      = (\<lambda>g. hd (map snd (filter (\<lambda>y. fst y = g) xs))) ` set (map fst xs)"
    by (simp add: group_first_def)
  moreover have "hd xs = x" by (simp add: xs)
  ultimately show ?thesis by (simp only:)
qed

lemma group_last_last:
  assumes "xs \<noteq> []"
  shows "snd (last xs) \<in> set (group_last xs)"
proof -
  from assms obtain ys y where xs: "xs = ys @ [y]"
    by (metis append_butlast_last_id)
  have "snd y \<in> (\<lambda>g. last (map snd (filter (\<lambda>z. fst z = g) xs))) ` set (map fst xs)"
    by (rule image_eqI [where x = "fst y"]) (simp_all add: xs)
  moreover have "set (group_last xs)
      = (\<lambda>g. last (map snd (filter (\<lambda>z. fst z = g) xs))) ` set (map fst xs)"
    by (simp add: group_last_def)
  moreover have "last xs = y" by (simp add: xs)
  ultimately show ?thesis by (simp only:)
qed

lemma target_date_idx_hd:
  assumes "rs \<noteq> []" and "row_matches (hd rs) ident id_colname date_colname target_datetime"
  shows "target_date_idx rs ident id_colname date_colname target_datetime \<noteq> [] \<and>
         snd (hd (target_date_idx rs ident id_colname date_colname target_datetime)) = 0"
proof -
  from assms obtain r rs' where rs: "rs = r # rs'" by (cases rs) auto
  show ?thesis using assms(2) by (simp add: rs target_date_idx_def)
qed

lemma target_date_idx_last:
  assumes "rs \<noteq> []" and "row_matches (last rs) ident id_colname date_colname target_datetime"
  shows "target_date_idx rs ident id_colname date_colname target_datetime \<noteq> [] \<and>
         snd (last (target_date_idx rs ident id_colname date_colname target_datetime))
           = word_of_nat (length rs - 1)"
proof -
  from assms(1) obtain ys y where rs: "rs = ys @ [y]"
    by (metis append_butlast_last_id)
  have "enumerate 0 rs = enumerate 0 ys @ [(length ys, y)]"
    by (simp add: rs enumerate_append_eq)
  then show ?thesis using assms(2) by (simp add: rs target_date_idx_def)
qed

lemma take_rows_out_of_bounds:
  "i \<in> set idx \<Longrightarrow> length rs \<le> unat i \<Longrightarrow> take_rows rs idx = Inl OutOfBoundsError"
  by (force simp: take_rows_def list_all_iff not_less)

lemma filter_df_raises_if_index_out_of_bounds:
  assumes "i \<in> set (map (\<lambda>i. i - 1)
                 (group_first (target_date_idx (rows df) ident id_colname date_colname target_datetime)))
           \<or> i \<in> set (map (\<lambda>i. i + 1)
                 (group_last (target_date_idx (rows df) ident id_colname date_colname target_datetime)))"
    and "length (rows df) \<le> unat i"
  shows "\<exists>err. filter_df_by_id_and_date df output_colnames ident id_colname date_colname
           target_datetime = Inl err"
proof -
  let ?t = "target_date_idx (rows df) ident id_colname date_colname target_datetime"
  have "i \<in> set (map snd ?t @ map (\<lambda>i. i - 1) (group_first ?t) @ map (\<lambda>i. i + 1) (group_last ?t))"
    using assms(1) by auto
  then have "take_rows (rows df)
      (map snd ?t @ map (\<lambda>i. i - 1) (group_first ?t) @ map (\<lambda>i. i + 1) (group_last ?t))
      = Inl OutOfBoundsError"
    using assms(2) by (rule take_rows_out_of_bounds)
  then show ?thesis
    by (simp add: filter_df_by_id_and_date_def Let_def)
qed

text \<open>
  C2. The code guards neither bracket index. When the first row of the frame is a
  match, the index before it is \<open>0 - 1\<close>, which in the unsigned 32-bit index column is
  \<open>4294967295\<close>; when the last row is a match, the index after it is the number of rows.
  Both are out of bounds, so the row selection raises: for a frame of fewer than
  \<open>2^32\<close> rows whose first or last row matches, \<open>filter_df_by_id_and_date\<close> raises and
  returns no frame.
\<close>

theorem filter_df_by_id_and_date_boundary_raises:
  assumes "rows df \<noteq> []" and "length (rows df) < 2 ^ 32"
    and "row_matches (hd (rows df)) ident id_colname date_colname target_datetime
         \<or> row_matches (last (rows df)) ident id_colname date_colname target_datetime"
  shows "\<exists>err. filter_df_by_id_and_date df output_colnames ident id_colname date_colname
           target_datetime = Inl err"
  using assms(3)
proof
  let ?t = "target_date_idx (rows df) ident id_colname date_colname target_datetime"
  assume "row_matches (hd (rows df)) ident id_colname date_colname target_datetime"
  from target_date_idx_hd [OF assms(1) this] group_first_hd [of ?t]
  have "0 \<in> set (group_first ?t)" by auto
  then have "(- 1 :: 32 word) \<in> set (map (\<lambda>i. i - 1) (group_first ?t))" by force
  moreover have "length (rows df) \<le> unat (- 1 :: 32 word)"
    using assms(2) by (simp add: unsigned_minus_1_eq_mask mask_eq_exp_minus_1)
  ultimately show ?thesis
    by (intro filter_df_raises_if_index_out_of_bounds [where i = "- 1"]) auto
next
  let ?t = "target_date_idx (rows df) ident id_colname date_colname target_datetime"
  let ?n = "length (rows df)"
  assume "row_matches (last (rows df)) ident id_colname date_colname target_datetime"
  from target_date_idx_last [OF assms(1) this] group_last_last [of ?t]
  have "(word_of_nat (?n - 1) :: 32 word) \<in> set (group_last ?t)" by auto
  then have "(word_of_nat (?n - 1) + 1 :: 32 word) \<in> set (map (\<lambda>i. i + 1) (group_last ?t))"
    by force
  moreover have "(word_of_nat (?n - 1) + 1 :: 32 word) = word_of_nat ?n"
    using assms(1) by (cases "rows df") auto
  moreover have "unat (word_of_nat ?n :: 32 word) = ?n"
    using assms(2) by (simp add: unat_of_nat)
  ultimately show ?thesis
    by (intro filter_df_raises_if_index_out_of_bounds [where i = "word_of_nat ?n"]) auto
qed

text \<open>
  The theorem at two frames of two rows each, queried for January 2: in the first the
  match is the first row, in the second it is the last row. Both calls raise at the
  row selection.
\<close>

lemma target_date_idx_first_example:
  "target_date_idx [sample_row (at_midnight 2020 1 2) 1, sample_row (at_midnight 2020 1 3) 1]
     1 ''id'' ''timestamp'' (at_midnight 2000 1 2) = [(Some (2020, 1, 2), 0)]"
  by (simp add: target_date_idx_def row_matches_def row_date_def sample_row_def at_midnight_def
       date_of_def enumerate_eq_zip)

lemma target_date_idx_last_example:
  "target_date_idx [sample_row (at_midnight 2020 1 1) 1, sample_row (at_midnight 2020 1 2) 1]
     1 ''id'' ''timestamp'' (at_midnight 2000 1 2) = [(Some (2020, 1, 2), 1)]"
  by (simp add: target_date_idx_def row_matches_def row_date_def sample_row_def at_midnight_def
       date_of_def enumerate_eq_zip)

theorem filter_df_by_id_and_date_boundary_raises_witness:
  "filter_df_by_id_and_date
     \<lparr>columns = [''timestamp'', ''id''],
      rows = [sample_row (at_midnight 2020 1 2) 1, sample_row (at_midnight 2020 1 3) 1]\<rparr>
     [''timestamp'', ''id''] 1 ''id'' ''timestamp'' (at_midnight 2000 1 2)
   = Inl OutOfBoundsError \<and>
   filter_df_by_id_and_date
     \<lparr>columns = [''timestamp'', ''id''],
      rows = [sample_row (at_midnight 2020 1 1) 1, sample_row (at_midnight 2020 1 2) 1]\<rparr>
     [''timestamp'', ''id''] 1 ''id'' ''timestamp'' (at_midnight 2000 1 2)
   = Inl OutOfBoundsError"
  using
    filter_df_by_id_and_date_boundary_raises
      [of "\<lparr>columns = [''timestamp'', ''id''],
            rows = [sample_row (at_midnight 2020 1 2) 1, sample_row (at_midnight 2020 1 3) 1]\<rparr>"
          1 "''id''" "''timestamp''" "at_midnight 2000 1 2" "[''timestamp'', ''id'']"]
    filter_df_by_id_and_date_boundary_raises
      [of "\<lparr>columns = [''timestamp'', ''id''],
            rows = [sample_row (at_midnight 2020 1 1) 1, sample_row (at_midnight 2020 1 2) 1]\<rparr>"
          1 "''id''" "''timestamp''" "at_midnight 2000 1 2" "[''timestamp'', ''id'']"]
  apply (simp add: filter_df_by_id_and_date_def Let_def target_date_idx_first_example
      target_date_idx_last_example group_first_def group_last_def take_rows_def
      unsigned_minus_1_eq_mask mask_eq_exp_minus_1)
  apply (simp add: sample_row_def)
  done

text \<open>
  Away from the two ends the function returns the match and its two brackets, sorted:
  a frame of January 1, 2 and 3, queried for January 2 with the timestamp column as
  output.
\<close>

lemma filter_df_by_id_and_date_inner_example:
  "filter_df_by_id_and_date
     \<lparr>columns = [''timestamp'', ''id''],
      rows = [sample_row (at_midnight 2020 1 1) 1, sample_row (at_midnight 2020 1 2) 1,
              sample_row (at_midnight 2020 1 3) 1]\<rparr>
     [''timestamp''] 1 ''id'' ''timestamp'' (at_midnight 2000 1 2)
   = Inr \<lparr>columns = [''timestamp''],
          rows = map (select_columns [''timestamp''])
                   [sample_row (at_midnight 2020 1 1) 1, sample_row (at_midnight 2020 1 2) 1,
                    sample_row (at_midnight 2020 1 3) 1]\<rparr>"
proof -
  have "target_date_idx [sample_row (at_midnight 2020 1 1) 1, sample_row (at_midnight 2020 1 2) 1,
            sample_row (at_midnight 2020 1 3) 1] 1 ''id'' ''timestamp'' (at_midnight 2000 1 2)
          = [(Some (2020, 1, 2), 1)]"
    by (simp add: target_date_idx_def row_matches_def row_date_def sample_row_def
         at_midnight_def date_of_def enumerate_eq_zip)
  then show ?thesis
    apply (simp add: filter_df_by_id_and_date_def Let_def group_first_def group_last_def
        take_rows_def)
    apply (simp add: sample_row_def sort_rows_def select_columns_def cell_le_def datetime_le_def
        at_midnight_def)
    done
qed

section \<open>Properties of request_current_weather\<close>

text \<open>
  What the station stage does with a final response that is not ok and whose payload has
  a string under \<open>type\<close>: it returns a \<open>CurrentWeather\<close> that is not valid, with the
  message for invalid coordinates when the lowered string contains \<open>invalidpoint\<close> and
  the message for an invalid response otherwise. The forecast endpoint is not called.
\<close>

lemma request_current_weather_station_not_ok:
  assumes "retry_request 3 4
             (request_station_information e (latitude coordinates, longitude coordinates))
             \<lparr>calls = station_calls w, slept = seconds_slept w\<rparr>
           = (Inr (Some (station_response, n)), st)"
    and "\<not> ok station_response"
    and "station_error_type station_response = Inr (JString error_type)"
  shows "request_current_weather e coordinates w =
           (Inr (CurrentWeather_init False
              (if str_contains ''invalidpoint'' (lower error_type)
               then invalid_input_coordinates_message
               else invalid_weather_api_response_message)),
            w\<lparr>station_calls := calls st, seconds_slept := slept st\<rparr>)"
  using assms
  by (simp add: request_current_weather_def CurrentWeather_init_def)

text \<open>
  C1. The read of the \<open>type\<close> field is outside every \<open>try\<close> block. When the final
  station response is not ok and the read fails (the body is not JSON, or the payload
  is not an object with the key \<open>type\<close>), \<open>request_current_weather\<close> raises the error
  of the read, where the claim has it return a \<open>CurrentWeather\<close> that is not valid.
\<close>

theorem request_current_weather_station_not_ok_raises:
  assumes "retry_request 3 4
             (request_station_information e (latitude coordinates, longitude coordinates))
             \<lparr>calls = station_calls w, slept = seconds_slept w\<rparr>
           = (Inr (Some (station_response, n)), st)"
    and "\<not> ok station_response"
    and "station_error_type station_response = Inl err"
  shows "request_current_weather e coordinates w =
           (Inl err, w\<lparr>station_calls := calls st, seconds_slept := slept st\<rparr>)"
  using assms
  by (simp add: request_current_weather_def)

text \<open>
  The theorem at a station endpoint that answers every call with a response that is not
  ok and whose payload is the empty object: \<open>KeyError\<close> after three attempts.
\<close>

theorem request_current_weather_station_not_ok_raises_witness:
  "request_current_weather
     (exchange \<lparr>ok = False, json_body = Some (JObject [])\<rparr>
               \<lparr>ok = True, json_body = Some (forecast_payload 23)\<rparr>)
     \<lparr>latitude = 40, longitude = 88\<rparr> start
   = (Inl KeyError, \<lparr>station_calls = 3, forecast_calls = 0, seconds_slept = 8\<rparr>)"
  using request_current_weather_station_not_ok_raises
    [where e = "exchange \<lparr>ok = False, json_body = Some (JObject [])\<rparr>
                         \<lparr>ok = True, json_body = Some (forecast_payload 23)\<rparr>"
       and coordinates = "\<lparr>latitude = 40, longitude = 88\<rparr>" and w = start
       and station_response = "\<lparr>ok = False, json_body = Some (JObject [])\<rparr>"
       and n = 2 and st = "\<lparr>calls = 3, slept = 8\<rparr>" and err = KeyError]
  by (simp add: exchange_def start_def request_station_information_def
      retry_request_def retry_loop.simps station_error_type_def response_json_def and_then_def)

text \<open>
  C6. When the station stage ends with an ok response that holds a forecast URL, and the
  forecast stage ends with a response that is not ok, \<open>request_current_weather\<close> returns
  the \<open>CurrentWeather\<close> built by \<open>CurrentWeather(valid_response = False)\<close>: not valid,
  with the empty string as its error message.
\<close>

theorem request_current_weather_forecast_not_ok:
  assumes "retry_request 3 4
             (request_station_information e (latitude coordinates, longitude coordinates))
             \<lparr>calls = station_calls w, slept = seconds_slept w\<rparr>
           = (Inr (Some (station_response, n)), st)"
    and "ok station_response"
    and "station_forecast_url station_response = Inr forecast_url"
    and "retry_request 3 4 (requests_get e forecast_url)
             \<lparr>calls = forecast_calls w, slept = slept st\<rparr>
           = (Inr (Some (forecast_response, m)), st')"
    and "\<not> ok forecast_response"
  shows "request_current_weather e coordinates w =
           (Inr (CurrentWeather_init False []),
            w\<lparr>station_calls := calls st, forecast_calls := calls st',
              seconds_slept := slept st'\<rparr>) \<and>
         valid_response (CurrentWeather_init False []) = False \<and>
         error_message (CurrentWeather_init False []) = []"
  using assms
  by (simp add: request_current_weather_def request_forecast_def CurrentWeather_init_def)

text \<open>
  The theorem at the station payload of the tests and a forecast endpoint that answers
  every call with a response that is not ok: one station call, three forecast calls.
\<close>

theorem request_current_weather_forecast_not_ok_witness:
  "request_current_weather
     (exchange \<lparr>ok = True, json_body = Some station_payload\<rparr> \<lparr>ok = False, json_body = None\<rparr>)
     \<lparr>latitude = 40, longitude = - 88\<rparr> start
   = (Inr (CurrentWeather_init False []),
      \<lparr>station_calls = 1, forecast_calls = 3, seconds_slept = 8\<rparr>) \<and>
   valid_response (CurrentWeather_init False []) = False \<and>
   error_message (CurrentWeather_init False []) = []"
  using request_current_weather_forecast_not_ok
    [where e = "exchange \<lparr>ok = True, json_body = Some station_payload\<rparr>
                         \<lparr>ok = False, json_body = None\<rparr>"
       and coordinates = "\<lparr>latitude = 40, longitude = - 88\<rparr>" and w = start
       and station_response = "\<lparr>ok = True, json_body = Some station_payload\<rparr>"
       and n = 0 and st = "\<lparr>calls = 1, slept = 0\<rparr>"
       and forecast_url = "JString ''https://api.weather.gov/gridpoints/KILX/000,000/forecast''"
       and forecast_response = "\<lparr>ok = False, json_body = None\<rparr>"
       and m = 2 and st' = "\<lparr>calls = 3, slept = 8\<rparr>"]
  by (simp add: exchange_def start_def request_station_information_def requests_get_def
      retry_request_def retry_loop.simps station_forecast_url_def response_json_def and_then_def
      station_payload_def)

text \<open>
  C10. A fully successful exchange whose forecast payload carries 8000 degrees
  Fahrenheit: \<open>request_current_weather\<close> returns a valid \<open>CurrentWeather\<close> with an empty
  error message whose \<open>temperature_celsius\<close> is \<open>39840 / 9\<close>, outside the bound declared
  on the field. The value is assigned after construction and is not validated.
\<close>

theorem request_current_weather_extreme_temperature:
  "request_current_weather
     (exchange \<lparr>ok = True, json_body = Some station_payload\<rparr>
               \<lparr>ok = True, json_body = Some (forecast_payload 8000)\<rparr>)
     \<lparr>latitude = 40, longitude = - 88\<rparr> start
   = (Inr \<lparr>valid_response = True, temperature_celsius = 39840 / 9,
           radar_station = JString ''KILX'', coordinates_city = JString ''Homer'',
           coordinates_state = JString ''IL'', error_message = []\<rparr>,
      \<lparr>station_calls = 1, forecast_calls = 1, seconds_slept = 0\<rparr>) \<and>
   \<not> temperature_celsius_in_bounds (39840 / 9)"
  by (simp add: request_current_weather_def request_forecast_def exchange_def start_def
      request_station_information_def requests_get_def
      retry_request_def retry_loop.simps station_forecast_url_def forecast_temperature_def
      station_location_def response_json_def and_then_def station_payload_def
      forecast_payload_def CurrentWeather_init_def convert_fahrenheit_to_celsius_def
      temperature_celsius_in_bounds_def)

section \<open>Properties of AnnualWeather\<close>

text \<open>
  C5, as the code has it. When a numeric field that \<open>AnnualWeather\<close> declares with a
  bound (the distance, the two station ids, the latitude, the longitude, the elevation)
  is outside its bound, the construction raises \<open>ValidationError\<close> and returns no value.
\<close>

theorem AnnualWeather_init_out_of_bounds:
  "\<not> bounded_numeric_fields_ok a \<Longrightarrow> AnnualWeather_init a = Inl ValidationError"
  by (auto simp: bounded_numeric_fields_ok_def AnnualWeather_init_def)

theorem AnnualWeather_init_out_of_bounds_witness:
  "\<not> bounded_numeric_fields_ok
       (sample_annual_weather 20\<lparr>distance_to_station_kilometers := 30000\<rparr>) \<and>
   AnnualWeather_init (sample_annual_weather 20\<lparr>distance_to_station_kilometers := 30000\<rparr>)
     = Inl ValidationError"
proof -
  have h: "\<not> bounded_numeric_fields_ok
              (sample_annual_weather 20\<lparr>distance_to_station_kilometers := 30000\<rparr>)"
    by (simp add: bounded_numeric_fields_ok_def sample_annual_weather_def)
  from h AnnualWeather_init_out_of_bounds [OF h] show ?thesis by simp
qed

text \<open>
  C5 as stated fails for \<open>current_temperature_celsius\<close>, which \<open>AnnualWeather\<close> declares
  without a bound: the default temperature \<open>-9999\<close> of a \<open>CurrentWeather\<close> that is not
  valid is outside the bound \<open>[-150, 150]\<close> declared on \<open>CurrentWeather\<close>, and the
  construction of an \<open>AnnualWeather\<close> with it succeeds.
\<close>

theorem AnnualWeather_init_temperature_counterexample:
  "\<not> temperature_celsius_in_bounds
       (temperature_celsius (CurrentWeather_init False invalid_weather_api_response_message)) \<and>
   AnnualWeather_init (sample_annual_weather
       (temperature_celsius (CurrentWeather_init False invalid_weather_api_response_message)))
     = Inr (sample_annual_weather (- 9999))"
  by (simp add: temperature_celsius_in_bounds_def CurrentWeather_init_def AnnualWeather_init_def
       sample_annual_weather_def)

end
